theory Spec2Isabelle
  imports Main
begin

section \<open>JavaScript values\<close>

text \<open>
  Configuration objects, manifests and compiler options are plain JavaScript values.
  An object is the list of its own enumerable properties in enumeration order (the order
  of \<^verbatim>\<open>Object.keys\<close>); property names are ordinary keys.
\<close>

datatype jsval =
    JUndefined
  | JNull
  | JBool bool
  | JNum int
  | JInfinity
  | JStr string
  | JArr "jsval list"
  | JObj "(string \<times> jsval) list"

type_synonym jsobj = "(string \<times> jsval) list"

text \<open>Property read \<^verbatim>\<open>obj[k]\<close>: a missing property reads as \<^verbatim>\<open>undefined\<close>.\<close>

definition get_prop :: "jsobj \<Rightarrow> string \<Rightarrow> jsval" where
  "get_prop obj k = (case map_of obj k of None \<Rightarrow> JUndefined | Some v \<Rightarrow> v)"

text \<open>
  Writing the own property \<open>k\<close> of an object, as an object literal, a spread and an
  assignment to an ordinary name do: an existing property keeps its place.
\<close>

fun set_prop :: "(string \<times> 'v) list \<Rightarrow> string \<Rightarrow> 'v \<Rightarrow> (string \<times> 'v) list" where
  "set_prop [] k v = [(k, v)]"
| "set_prop ((k', v') # rest) k v =
     (if k' = k then (k, v) # rest else (k', v') # set_prop rest k v)"

text \<open>
  The assignment \<^verbatim>\<open>obj[k] = v\<close> on a plain object. The name \<^verbatim>\<open>__proto__\<close> is an accessor of
  \<^verbatim>\<open>Object.prototype\<close>: assigning to it runs the setter, which replaces the prototype of the
  object (or does nothing) and adds no own property.
\<close>

definition assign_prop :: "(string \<times> 'v) list \<Rightarrow> string \<Rightarrow> 'v \<Rightarrow> (string \<times> 'v) list" where
  "assign_prop obj k v = (if k = ''__proto__'' then obj else set_prop obj k v)"

text \<open>The rest pattern \<^verbatim>\<open>const { [optionName]: _, ...rest } = options\<close>.\<close>

definition omit_prop :: "string \<Rightarrow> jsobj \<Rightarrow> jsobj" where
  "omit_prop optionName options = filter (\<lambda>(k, v). k \<noteq> optionName) options"

text \<open>Decimal numerals, as \<^verbatim>\<open>Object.keys\<close> names the indices of an array.\<close>

fun string_of_nat :: "nat \<Rightarrow> string" where
  "string_of_nat n =
     (if n < 10 then [char_of (48 + n)]
      else string_of_nat (n div 10) @ [char_of (48 + n mod 10)])"

declare string_of_nat.simps [simp del]

definition string_of_int :: "int \<Rightarrow> string" where
  "string_of_int i = (if i < 0 then CHR ''-'' # string_of_nat (nat (- i)) else string_of_nat (nat i))"

fun join_comma :: "string list \<Rightarrow> string" where
  "join_comma [] = []"
| "join_comma [s] = s"
| "join_comma (s # t # rest) = s @ '','' @ join_comma (t # rest)"

text \<open>String conversion of a value, as the operator \<^verbatim>\<open>+\<close> applies it to its right operand.\<close>

fun js_to_string :: "jsval \<Rightarrow> string" where
  "js_to_string JUndefined = ''undefined''"
| "js_to_string JNull = ''null''"
| "js_to_string (JBool b) = (if b then ''true'' else ''false'')"
| "js_to_string (JNum i) = string_of_int i"
| "js_to_string JInfinity = ''Infinity''"
| "js_to_string (JStr s) = s"
| "js_to_string (JArr xs) =
     join_comma (map (\<lambda>x. if x = JUndefined \<or> x = JNull then [] else js_to_string x) xs)"
| "js_to_string (JObj ps) = ''[object Object]''"

definition truthy :: "jsval \<Rightarrow> bool" where
  "truthy v = (v \<noteq> JUndefined \<and> v \<noteq> JNull \<and> v \<noteq> JBool False \<and> v \<noteq> JNum 0 \<and> v \<noteq> JStr [])"

section \<open>Strings\<close>

text \<open>\<^verbatim>\<open>String.prototype.lastIndexOf\<close> for a one-character pattern: \<open>-1\<close> when absent.\<close>

fun lastIndexOf_from :: "string \<Rightarrow> char \<Rightarrow> int \<Rightarrow> int \<Rightarrow> int" where
  "lastIndexOf_from [] c i found = found"
| "lastIndexOf_from (x # xs) c i found =
     lastIndexOf_from xs c (i + 1) (if x = c then i else found)"

definition lastIndexOf :: "string \<Rightarrow> char \<Rightarrow> int" where
  "lastIndexOf s c = lastIndexOf_from s c 0 (- 1)"

text \<open>
  \<^verbatim>\<open>String.prototype.slice(start, end)\<close>: a negative index counts from the end, and both
  indices are clamped to the string.
\<close>

definition slice_index :: "nat \<Rightarrow> int \<Rightarrow> nat" where
  "slice_index len i = (if i < 0 then nat (max (int len + i) 0) else min (nat i) len)"

definition slice :: "string \<Rightarrow> int \<Rightarrow> int \<Rightarrow> string" where
  "slice s start end =
     (let from = slice_index (length s) start; to = slice_index (length s) end
      in take (to - from) (drop from s))"

section \<open>Bundle paths\<close>

text \<open>
  \<^verbatim>\<open>entry.slice(0, entry.lastIndexOf('.')) + buildOptions.outputFileExtension\<close>
  (bundle.ts, line 120).
\<close>

definition bundlePathOf :: "string \<Rightarrow> jsval \<Rightarrow> string" where
  "bundlePathOf entry outputFileExtension =
     slice entry 0 (lastIndexOf entry CHR ''.'') @ js_to_string outputFileExtension"

section \<open>The helper module\<close>

text \<open>
  Modelled from the spec: \<^verbatim>\<open>asArray\<close> of helper.ts, which is not among the sources. The
  exclude and external options are lists of names; a value that is not a list stands for
  the list holding it alone.
\<close>

definition asArray :: "jsval \<Rightarrow> jsval list" where
  "asArray data = (case data of JArr xs \<Rightarrow> xs | _ \<Rightarrow> [data])"

text \<open>
  Modelled from the spec: \<^verbatim>\<open>isESM\<close> of helper.ts, which is not among the sources. A build is
  an ES-module build when its format is "esm" or its platform is "neutral".
\<close>

definition isESM :: "jsobj \<Rightarrow> bool" where
  "isESM buildOptions =
     (get_prop buildOptions ''format'' = JStr ''esm'' \<or>
      get_prop buildOptions ''platform'' = JStr ''neutral'')"

datatype 'e bundle_error =
    AssertionError string
  | ServerlessError string
  | BuildFailure 'e

text \<open>
  Modelled from the spec: \<^verbatim>\<open>assertIsString\<close> of helper.ts, which is not among the sources.
  It fails with the given message unless the value is a string.
\<close>

definition assertIsString :: "jsval \<Rightarrow> string \<Rightarrow> 'e bundle_error + string" where
  "assertIsString input message =
     (case input of JStr s \<Rightarrow> Inr s | _ \<Rightarrow> Inl (AssertionError message))"

section \<open>The batch build orchestrator (bundle.ts)\<close>

fun stringOf :: "jsval \<Rightarrow> string list" where
  "stringOf (JStr s) = [s]"
| "stringOf _ = []"

text \<open>\<^verbatim>\<open>asArray(input).filter(Predicate.isString)\<close>\<close>

definition getStringArray :: "jsval \<Rightarrow> string list" where
  "getStringArray input = concat (map stringOf (asArray input))"

text \<open>
  One round of the loop of \<^verbatim>\<open>getExternalNames\<close>: a string is pushed itself, an object (an
  array is one too, its keys are its indices) pushes its keys, \<^verbatim>\<open>null\<close> and every other
  value push nothing.
\<close>

fun externalNamesOf :: "jsval \<Rightarrow> string list" where
  "externalNamesOf (JStr s) = [s]"
| "externalNamesOf (JObj ps) = map fst ps"
| "externalNamesOf (JArr xs) = map string_of_nat [0..<length xs]"
| "externalNamesOf _ = []"

definition getExternalNames :: "jsval \<Rightarrow> string list" where
  "getExternalNames externals = concat (map externalNamesOf (asArray externals))"

text \<open>The plugin's own options, deleted from the configuration handed to the compiler.\<close>

definition pluginOptionNames :: "string list" where
  "pluginOptionNames =
     [''concurrency'', ''zipConcurrency'', ''exclude'', ''nativeZip'', ''packager'',
      ''packagePath'', ''watch'', ''keepOutputDirectory'', ''packagerOptions'',
      ''installExtraArgs'', ''installDeps'', ''outputFileExtension'', ''outputBuildFolder'',
      ''outputWorkFolder'', ''nodeExternals'', ''skipBuild'', ''skipRebuild'',
      ''skipBuildExcludeFns'', ''stripEntryResolveExtensions'', ''disposeContext'']"

definition esbuildOptions :: "jsobj \<Rightarrow> jsobj" where
  "esbuildOptions buildOptions =
     foldl (\<lambda>options optionName. omit_prop optionName options) buildOptions pluginOptionNames"

text \<open>\<^verbatim>\<open>config\<close> of lines 72 to 76: the remaining options, the external list, the plugins.\<close>

definition compilerConfig :: "jsobj \<Rightarrow> jsval \<Rightarrow> jsobj" where
  "compilerConfig buildOptions plugins =
     (let exclude = getStringArray (get_prop buildOptions ''exclude'')
      in set_prop
           (set_prop (esbuildOptions buildOptions) ''external''
              (JArr (map JStr (getExternalNames (get_prop buildOptions ''external'') @
                               (if ''*'' \<in> set exclude then [] else exclude)))))
           ''plugins'' plugins)"

text \<open>\<^verbatim>\<open>uniq\<close> of ramda: the first occurrence of each element, in order.\<close>

definition uniq :: "'a list \<Rightarrow> 'a list" where
  "uniq xs = foldl (\<lambda>seen x. if x \<in> set seen then seen else seen @ [x]) [] xs"

record 'f FunctionEntry =
  entry :: string
  func :: "'f option"
  functionAlias :: string

record 'r FileBuildResult =
  bundlePath :: string
  file_entry :: string
  result :: 'r

record 'f FunctionBuildResult =
  fn_bundlePath :: string
  fn_func :: 'f
  fn_functionAlias :: string

text \<open>
  The plugin instance as \<^verbatim>\<open>bundle\<close> reads it. \<open>buildOptions\<close> is \<open>None\<close> when undefined;
  a \<open>func\<close> of \<open>None\<close> is \<^verbatim>\<open>null\<close>.
\<close>

record 'f plugin =
  buildOptions :: "jsobj option"
  buildDirPath :: jsval
  plugins :: jsval
  functionEntries :: "'f FunctionEntry list"

text \<open>
  What \<^verbatim>\<open>bundle\<close> does to the outside, in order: the call of \<^verbatim>\<open>this.prepare\<close>, a call of
  the compiler with its configuration, the writing of \<^verbatim>\<open>meta.json\<close> in a directory with the
  JSON text of a value. Log messages are left out.
\<close>

datatype event =
    Prepare
  | Build jsobj
  | WriteMetaFile string jsval

text \<open>Lines 132 to 142: each function entry is looked up in the cache built for this call.\<close>

definition toBuildResult ::
  "(string \<times> 'r FileBuildResult) list \<Rightarrow> 'f FunctionEntry \<Rightarrow> 'f FunctionBuildResult option" where
  "toBuildResult buildCache fe =
     (case map_of buildCache (entry fe) of
        None \<Rightarrow> None
      | Some file \<Rightarrow>
          (case func fe of
             None \<Rightarrow> None
           | Some f \<Rightarrow>
               Some \<lparr>fn_bundlePath = bundlePath file, fn_func = f,
                     fn_functionAlias = functionAlias fe\<rparr>))"

definition mapFunctionEntries ::
  "(string \<times> 'r FileBuildResult) list \<Rightarrow> 'f FunctionEntry list \<Rightarrow> 'f FunctionBuildResult list" where
  "mapFunctionEntries buildCache entries =
     map the (filter (\<lambda>r. r \<noteq> None) (map (toBuildResult buildCache) entries))"

definition fileBuildResultsOf :: "string list \<Rightarrow> jsval \<Rightarrow> 'r \<Rightarrow> 'r FileBuildResult list" where
  "fileBuildResultsOf uniqueFiles outputFileExtension buildResult =
     map (\<lambda>e. \<lparr>bundlePath = bundlePathOf e outputFileExtension, file_entry = e,
               result = buildResult\<rparr>) uniqueFiles"

text \<open>
  The cache of lines 125 to 129, an object keyed by entry. It is read at the entries it was
  written at only; the entry \<^verbatim>\<open>__proto__\<close> is stored as the prototype and read back under the
  same name, so the cache is an association list of entries.
\<close>

definition buildCacheOf :: "'r FileBuildResult list \<Rightarrow> (string \<times> 'r FileBuildResult) list" where
  "buildCacheOf fileBuildResults =
     foldl (\<lambda>acc fileBuildResult. set_prop acc (file_entry fileBuildResult) fileBuildResult)
       [] fileBuildResults"

text \<open>
  \<^verbatim>\<open>bundle\<close>, called on a plugin instance. The compiler (\<^verbatim>\<open>pkg.build\<close>) is the parameter \<open>build\<close>: it is given the
  configuration of the call and fails or returns its result object. The function returns the
  events in order and either the error thrown or the value stored in \<^verbatim>\<open>this.buildResults\<close>.
\<close>

definition bundle_call ::
  "(jsobj \<Rightarrow> 'e + jsobj) \<Rightarrow> 'f plugin \<Rightarrow> event list \<times> ('e bundle_error + 'f FunctionBuildResult list)" where
  \<open>bundle_call build this =
     (case buildOptions this of
        None \<Rightarrow> ([], Inl (AssertionError ''buildOptions is not defined''))
      | Some opts \<Rightarrow>
          (let config = compilerConfig opts (plugins this);
               outputFileExtension = get_prop opts ''outputFileExtension''
           in case assertIsString (buildDirPath this) ''buildDirPath is not a string'' of
                Inl err \<Rightarrow> ([Prepare], Inl err)
              | Inr dir \<Rightarrow>
                  if isESM opts \<and> outputFileExtension = JStr ''.cjs'' then
                    ([Prepare], Inl (ServerlessError
                      ''ERROR: format "esm" or platform "neutral" should not output a file with extension ".cjs".''))
                  else if \<not> isESM opts \<and> outputFileExtension = JStr ''.mjs'' then
                    ([Prepare], Inl (ServerlessError
                      ''ERROR: Non esm builds should not output a file with extension ".mjs".''))
                  else
                    (let config' =
                           (if outputFileExtension \<noteq> JStr ''.js''
                            then set_prop config ''outExtension'' (JObj [(''.js'', outputFileExtension)])
                            else config);
                         uniqueFiles = uniq (map entry (functionEntries this));
                         call = set_prop (set_prop (set_prop config'
                                  ''entryPoints'' (JArr (map JStr uniqueFiles)))
                                  ''outdir'' (JStr dir))
                                  ''outbase'' (JStr ''.'')
                     in case build call of
                          Inl e \<Rightarrow> ([Prepare, Build call], Inl (BuildFailure e))
                        | Inr buildResult \<Rightarrow>
                            ([Prepare, Build call] @
                             (if truthy (get_prop config' ''metafile'')
                              then [WriteMetaFile dir (get_prop buildResult ''metafile'')]
                              else []),
                             Inr (mapFunctionEntries
                                    (buildCacheOf
                                       (fileBuildResultsOf uniqueFiles outputFileExtension buildResult))
                                    (functionEntries this))))))\<close>

text \<open>The compiler invocations among the events, in order.\<close>

fun buildCalls :: "event list \<Rightarrow> jsobj list" where
  "buildCalls [] = []"
| "buildCalls (Build c # es) = c # buildCalls es"
| "buildCalls (_ # es) = buildCalls es"

section \<open>The Bun packager\<close>

text \<open>A spawned process: the command, its arguments and its working directory.\<close>

type_synonym spawn_call = "string \<times> string list \<times> string"

text \<open>The result object; \<open>dependencies\<close> holds the own properties of its dependencies object.\<close>

record DependenciesResult =
  dependencies :: jsobj

text \<open>
  The property read \<^verbatim>\<open>value.name\<close>, which throws a TypeError on \<^verbatim>\<open>null\<close> and
  \<^verbatim>\<open>undefined\<close> (\<open>None\<close> here). The name is not an index and not \<^verbatim>\<open>length\<close>, so every
  value but an object reads as \<^verbatim>\<open>undefined\<close>.
\<close>

fun read_member :: "jsval \<Rightarrow> string \<Rightarrow> jsval option" where
  "read_member JUndefined k = None"
| "read_member JNull k = None"
| "read_member (JObj ps) k = Some (get_prop ps k)"
| "read_member _ k = Some JUndefined"

text \<open>\<^verbatim>\<open>Object.entries\<close>: the properties of an object, the indexed elements of an array or string.\<close>

fun object_entries :: "jsval \<Rightarrow> (string \<times> jsval) list" where
  "object_entries (JObj ps) = ps"
| "object_entries (JArr xs) = zip (map string_of_nat [0..<length xs]) xs"
| "object_entries (JStr s) = zip (map string_of_nat [0..<length s]) (map (\<lambda>c. JStr [c]) s)"
| "object_entries _ = []"

text \<open>
  \<^verbatim>\<open>getProdDependencies\<close>. Reading the file, parsing JSON and joining paths belong to the
  platform and are parameters; each of the first two fails (\<open>Inl\<close>) or returns. Whatever is
  thrown inside the \<^verbatim>\<open>try\<close> block ends in the \<^verbatim>\<open>catch\<close> branch. The loop assigns
  \<^verbatim>\<open>result.dependencies[name] = { version }\<close> for each entry of the dependencies section.
\<close>

definition getProdDependencies ::
  "(string \<Rightarrow> 'e + string) \<Rightarrow> (string \<Rightarrow> 'e + jsval) \<Rightarrow> (string \<Rightarrow> string \<Rightarrow> string) \<Rightarrow>
   string \<Rightarrow> DependenciesResult" where
  "getProdDependencies readFileSync JSON_parse path_join cwd =
     (let packageJsonPath = path_join cwd ''package.json''
      in case readFileSync packageJsonPath of
           Inl err \<Rightarrow> \<lparr>dependencies = []\<rparr>
         | Inr content \<Rightarrow>
             (case JSON_parse content of
                Inl err \<Rightarrow> \<lparr>dependencies = []\<rparr>
              | Inr packageJson \<Rightarrow>
                  (case read_member packageJson ''dependencies'' of
                     None \<Rightarrow> \<lparr>dependencies = []\<rparr>
                   | Some d \<Rightarrow>
                       (let deps = (if truthy d then d else JObj [])
                        in \<lparr>dependencies =
                              foldl (\<lambda>res (name, version).
                                       assign_prop res name (JObj [(''version'', version)]))
                                [] (object_entries deps)\<rparr>))))"

text \<open>
  \<^verbatim>\<open>install\<close>. \<open>spawnProcess\<close> runs a process in the outside world \<open>w\<close> and fails (\<open>Inl\<close>,
  the rejection of the promise) or returns. The function returns the processes it spawned,
  in order, and its own outcome.
\<close>

definition install ::
  "(spawn_call \<Rightarrow> 'w \<Rightarrow> ('e + 'r) \<times> 'w) \<Rightarrow> string \<Rightarrow> string list \<Rightarrow> bool \<Rightarrow> 'w \<Rightarrow>
   (spawn_call list \<times> ('e + unit)) \<times> 'w" where
  "install spawnProcess cwd extraArgs useLockfile w =
     (let command = ''bun'';
          args = [''install'', ''--production''] @ extraArgs
      in case spawnProcess (command, args, cwd) w of
           (Inr _, w1) \<Rightarrow> (([(command, args, cwd)], Inr ()), w1)
         | (Inl err, w1) \<Rightarrow>
             (let fallbackArgs = [''install''] @ extraArgs
              in case spawnProcess (command, fallbackArgs, cwd) w1 of
                   (Inr _, w2) \<Rightarrow>
                     (([(command, args, cwd), (command, fallbackArgs, cwd)], Inr ()), w2)
                 | (Inl err2, w2) \<Rightarrow>
                     (([(command, args, cwd), (command, fallbackArgs, cwd)], Inl err2), w2)))"

section \<open>The direct-streaming zip engine\<close>

record IFile =
  rootPath :: string
  localPath :: string

type_synonym IFiles = "IFile list"

record Stats =
  isDirectory :: bool
  mode :: nat

text \<open>
  What \<^verbatim>\<open>zipArchive.file\<close> is given for one entry: the source path, the entry's name, its
  permission bits and its date in milliseconds since the epoch.
\<close>

record archive_entry =
  ae_source :: string
  ae_name :: string
  ae_mode :: nat
  ae_date :: int

text \<open>\<^verbatim>\<open>statCache?.get(file.rootPath) ?? fs.statSync(file.rootPath)\<close>\<close>

definition statsOf ::
  "(string \<rightharpoonup> Stats) option \<Rightarrow> (string \<Rightarrow> 'e + Stats) \<Rightarrow> string \<Rightarrow> 'e + Stats" where
  "statsOf statCache statSync p =
     (case statCache of
        None \<Rightarrow> statSync p
      | Some cache \<Rightarrow> (case cache p of Some stats \<Rightarrow> Inr stats | None \<Rightarrow> statSync p))"

text \<open>
  The \<^verbatim>\<open>forEach\<close> of \<^verbatim>\<open>nodeZip\<close>, which queues the entries in the archive. An exception of
  \<^verbatim>\<open>statSync\<close> ends the loop and rejects the promise.
\<close>

fun queueFiles ::
  "(string \<rightharpoonup> Stats) option \<Rightarrow> (string \<Rightarrow> 'e + Stats) \<Rightarrow> archive_entry list \<Rightarrow> IFiles \<Rightarrow>
   'e + archive_entry list" where
  "queueFiles statCache statSync queued [] = Inr queued"
| "queueFiles statCache statSync queued (file # files) =
     (case statsOf statCache statSync (rootPath file) of
        Inl err \<Rightarrow> Inl err
      | Inr stats \<Rightarrow>
          if isDirectory stats then queueFiles statCache statSync queued files
          else queueFiles statCache statSync
                 (queued @ [\<lparr>ae_source = rootPath file, ae_name = localPath file,
                             ae_mode = mode stats, ae_date = 0\<rparr>]) files)"

text \<open>
  \<^verbatim>\<open>nodeZip\<close>. The archive library is the parameter \<open>finalize\<close>: the bytes it streams for the
  entries queued, whose contents it reads from their source paths. The function returns the
  error the promise is rejected with, or the path written and the bytes written there.
\<close>

definition nodeZip ::
  "(archive_entry list \<Rightarrow> 'b list) \<Rightarrow> (string \<Rightarrow> 'e + Stats) \<Rightarrow> string \<Rightarrow> IFiles \<Rightarrow>
   (string \<rightharpoonup> Stats) option \<Rightarrow> 'e + string \<times> 'b list" where
  "nodeZip finalize statSync zipPath filesPathList statCache =
     (case queueFiles statCache statSync [] filesPathList of
        Inl err \<Rightarrow> Inl err
      | Inr queued \<Rightarrow> Inr (zipPath, finalize queued))"

section \<open>Scenarios\<close>

text \<open>The build options, entries and plugin instance of the test-suite (bundle.test.ts).\<close>

definition testBuildOptions :: "jsval \<Rightarrow> jsobj" where
  "testBuildOptions concurrency =
     [(''concurrency'', concurrency), (''bundle'', JBool True), (''target'', JStr ''node12''),
      (''external'', JArr []), (''exclude'', JArr [JStr ''aws-sdk'']),
      (''nativeZip'', JBool False), (''packager'', JStr ''npm''),
      (''installExtraArgs'', JArr []), (''watch'', JObj []),
      (''keepOutputDirectory'', JBool False), (''packagerOptions'', JObj []),
      (''platform'', JStr ''node''), (''outputFileExtension'', JStr ''.js'')]"

definition skipBundleOptions :: jsobj where
  "skipBundleOptions =
     [(''concurrency'', JInfinity), (''bundle'', JBool True), (''target'', JStr ''node12''),
      (''external'', JArr []), (''exclude'', JArr [JStr ''aws-sdk'']),
      (''nativeZip'', JBool False), (''packager'', JStr ''npm''),
      (''installExtraArgs'', JArr []), (''watch'', JObj []),
      (''keepOutputDirectory'', JBool True), (''packagerOptions'', JObj []),
      (''platform'', JStr ''node''), (''outputFileExtension'', JStr ''.js''),
      (''skipBundle'', JBool True)]"

definition testEntry :: "string \<Rightarrow> string \<Rightarrow> string \<Rightarrow> string FunctionEntry" where
  "testEntry e handler alias = \<lparr>entry = e, func = Some handler, functionAlias = alias\<rparr>"

definition testPlugin :: "jsobj \<Rightarrow> string FunctionEntry list \<Rightarrow> string plugin" where
  "testPlugin opts entries =
     \<lparr>buildOptions = Some opts, buildDirPath = JStr ''/workdir/.esbuild'', plugins = JArr [],
      functionEntries = entries\<rparr>"

definition threeEntries :: "string FunctionEntry list" where
  "threeEntries =
     [testEntry ''file1.ts'' ''file1.handler'' ''func1'',
      testEntry ''file2.ts'' ''file2.handler'' ''func2'',
      testEntry ''file3.ts'' ''file3.handler'' ''func3'']"

definition twoEntries :: "string FunctionEntry list" where
  "twoEntries =
     [testEntry ''file1.ts'' ''file1.handler'' ''func1'',
      testEntry ''file2.ts'' ''file2.handler'' ''func2'']"

text \<open>A compiler that succeeds with an empty result object.\<close>

definition okBuild :: "jsobj \<Rightarrow> unit + jsobj" where
  "okBuild call = Inr []"

definition esmCjsPlugin :: "string plugin" where
  "esmCjsPlugin = testPlugin [(''format'', JStr ''esm''), (''outputFileExtension'', JStr ''.cjs'')] twoEntries"

definition nodeMjsPlugin :: "string plugin" where
  "nodeMjsPlugin = testPlugin [(''platform'', JStr ''node''), (''outputFileExtension'', JStr ''.mjs'')] twoEntries"

definition neutralMjsPlugin :: "string plugin" where
  "neutralMjsPlugin = testPlugin [(''platform'', JStr ''neutral''), (''outputFileExtension'', JStr ''.mjs'')] twoEntries"

definition mixedEntries :: "string FunctionEntry list" where
  "mixedEntries =
     [testEntry ''a.ts'' ''a.one'' ''f1'',
      \<lparr>entry = ''a.ts'', func = None, functionAlias = ''f2''\<rparr>,
      testEntry ''b.ts'' ''b.main'' ''f3'',
      testEntry ''a.ts'' ''a.two'' ''f4'']"

definition cacheOfA :: "(string \<times> unit FileBuildResult) list" where
  "cacheOfA = [(''a.ts'', \<lparr>bundlePath = ''a.js'', file_entry = ''a.ts'', result = ()\<rparr>)]"



text \<open>A world that counts the processes run; a production install fails in it, and so does
  every other install when \<open>broken\<close>.\<close>

definition failingSpawn :: "bool \<Rightarrow> spawn_call \<Rightarrow> nat \<Rightarrow> (string + unit) \<times> nat" where
  "failingSpawn broken call n =
     (if ''--production'' \<in> set (fst (snd call)) then (Inl ''production install failed'', Suc n)
      else if broken then (Inl ''install failed'', Suc n)
      else (Inr (), Suc n))"

definition workingSpawn :: "spawn_call \<Rightarrow> nat \<Rightarrow> (string + unit) \<times> nat" where
  "workingSpawn call n = (Inr (), Suc n)"

definition demoStats :: "string \<Rightarrow> Stats" where
  "demoStats p = (if p = ''/work/lib'' then \<lparr>isDirectory = True, mode = 16877\<rparr>
                  else if p = ''/work/run.sh'' then \<lparr>isDirectory = False, mode = 33261\<rparr>
                  else \<lparr>isDirectory = False, mode = 33188\<rparr>)"

definition demoFiles :: IFiles where
  "demoFiles =
     [\<lparr>rootPath = ''/work/index.js'', localPath = ''index.js''\<rparr>,
      \<lparr>rootPath = ''/work/lib'', localPath = ''lib''\<rparr>,
      \<lparr>rootPath = ''/work/run.sh'', localPath = ''bin/run.sh''\<rparr>]"

definition demoStatSync :: "string \<Rightarrow> string + Stats" where
  "demoStatSync p = Inr (demoStats p)"

text \<open>A stand-in for the archive library: one record per entry.\<close>

definition demoFinalize :: "archive_entry list \<Rightarrow> (string \<times> nat \<times> int) list" where
  "demoFinalize queued = map (\<lambda>e. (ae_name e, ae_mode e, ae_date e)) queued"

text \<open>A platform with four working directories: a manifest with dependencies, a manifest
  without, a file that is not JSON, a manifest with a dependency named \<^verbatim>\<open>__proto__\<close>; every
  other path cannot be read.\<close>

definition demoJoin :: "string \<Rightarrow> string \<Rightarrow> string" where
  "demoJoin directory name = directory @ ''/'' @ name"

definition demoReadFileSync :: "string \<Rightarrow> string + string" where
  "demoReadFileSync p =
     (if p = ''/app/package.json'' then Inr ''manifest of app''
      else if p = ''/bare/package.json'' then Inr ''manifest of bare''
      else if p = ''/broken/package.json'' then Inr ''{ not json''
      else if p = ''/proto/package.json'' then Inr ''manifest of proto''
      else Inl ''ENOENT'')"

definition demoParse :: "string \<Rightarrow> string + jsval" where
  "demoParse content =
     (if content = ''manifest of app''
      then Inr (JObj [(''name'', JStr ''app''),
                      (''dependencies'', JObj [(''knex'', JStr ''^3.1.0''), (''pg'', JStr ''8.11.3'')]),
                      (''devDependencies'', JObj [(''jest'', JStr ''^29.0.0'')])])
      else if content = ''manifest of bare'' then Inr (JObj [(''name'', JStr ''bare'')])
      else if content = ''manifest of proto''
      then Inr (JObj [(''dependencies'',
                       JObj [(''__proto__'', JStr ''1.0.0''), (''pg'', JStr ''8.11.3'')])])
      else Inl ''SyntaxError'')"

section \<open>Properties of strings and objects\<close>

lemma lastIndexOf_from_absent:
  "c \<notin> set xs \<Longrightarrow> lastIndexOf_from xs c i found = found"
  by (induction xs arbitrary: i found) auto

lemma lastIndexOf_from_append:
  "lastIndexOf_from (xs @ ys) c i found =
     lastIndexOf_from ys c (i + int (length xs)) (lastIndexOf_from xs c i found)"
  by (induction xs arbitrary: i found) (auto simp: algebra_simps)

lemma lastIndexOf_last_occurrence:
  "c \<notin> set suf \<Longrightarrow> lastIndexOf (pre @ c # suf) c = int (length pre)"
  by (simp add: lastIndexOf_def lastIndexOf_from_append lastIndexOf_from_absent)

lemma lastIndexOf_absent: "c \<notin> set s \<Longrightarrow> lastIndexOf s c = - 1"
  by (simp add: lastIndexOf_def lastIndexOf_from_absent)

lemma slice_prefix: "slice (pre @ suf) 0 (int (length pre)) = pre"
  by (simp add: slice_def slice_index_def)

lemma slice_drop_last: "slice s 0 (- 1) = butlast s"
proof -
  have "nat (max (int (length s) - 1) 0) = length s - 1" by arith
  then show ?thesis
    by (simp add: slice_def slice_index_def butlast_conv_take)
qed

lemma bundlePathOf_last_dot:
  "CHR ''.'' \<notin> set suf \<Longrightarrow>
   bundlePathOf (pre @ CHR ''.'' # suf) ext = pre @ js_to_string ext"
  using slice_prefix [of pre "CHR ''.'' # suf"]
  by (simp add: bundlePathOf_def lastIndexOf_last_occurrence)

lemma bundlePathOf_no_dot:
  "CHR ''.'' \<notin> set e \<Longrightarrow> bundlePathOf e ext = butlast e @ js_to_string ext"
  by (simp add: bundlePathOf_def lastIndexOf_absent slice_drop_last)

lemma map_of_set_prop: "map_of (set_prop obj k v) = (map_of obj)(k \<mapsto> v)"
  by (induction obj) (auto simp: fun_eq_iff)







lemma set_prop_fresh: "k \<notin> fst ` set obj \<Longrightarrow> set_prop obj k v = obj @ [(k, v)]"
  by (induction obj) auto

lemma foldl_assign_prop_distinct:
  "distinct (map fst ps) \<Longrightarrow> fst ` set acc \<inter> fst ` set ps = {} \<Longrightarrow>
   foldl (\<lambda>res (name, version). assign_prop res name (g version)) acc ps =
     acc @ map (\<lambda>(name, version). (name, g version))
             (filter (\<lambda>(name, version). name \<noteq> ''__proto__'') ps)"
proof (induction ps arbitrary: acc)
  case Nil
  then show ?case by simp
next
  case (Cons p ps)
  obtain name version where p: "p = (name, version)" by (cases p)
  have fresh: "name \<notin> fst ` set acc" using Cons.prems(2) by (auto simp: p)
  have rest: "fst ` set acc \<inter> fst ` set ps = {}" using Cons.prems(2) by auto
  have "fst ` set (acc @ [(name, version')]) \<inter> fst ` set ps = {}" for version'
    using Cons.prems by (auto simp: p)
  then show ?case
    using Cons.IH [of "acc @ [(name, g version)]"] Cons.IH [of acc] rest Cons.prems(1)
    by (simp add: p assign_prop_def set_prop_fresh [OF fresh])
qed


section \<open>Properties of the orchestrator\<close>

lemma uniq_foldl_set:
  "set (foldl (\<lambda>seen x. if x \<in> set seen then seen else seen @ [x]) acc xs) = set acc \<union> set xs"
  by (induction xs arbitrary: acc) auto

lemma uniq_foldl_distinct:
  "distinct acc \<Longrightarrow>
   distinct (foldl (\<lambda>seen x. if x \<in> set seen then seen else seen @ [x]) acc xs)"
  by (induction xs arbitrary: acc) auto

lemma set_uniq: "set (uniq xs) = set xs"
  by (simp add: uniq_def uniq_foldl_set)

lemma distinct_uniq: "distinct (uniq xs)"
  by (simp add: uniq_def uniq_foldl_distinct)

lemma map_of_cache_foldl:
  "(\<And>e. file_entry (g e) = e) \<Longrightarrow>
   map_of (foldl (\<lambda>acc r. set_prop acc (file_entry r) r) acc (map g us)) e =
     (if e \<in> set us then Some (g e) else map_of acc e)"
  by (induction us arbitrary: acc) (auto simp: map_of_set_prop)

lemma map_of_buildCache:
  "map_of (buildCacheOf (fileBuildResultsOf us ext res)) e =
     (if e \<in> set us
      then Some \<lparr>bundlePath = bundlePathOf e ext, file_entry = e, result = res\<rparr>
      else None)"
  unfolding buildCacheOf_def fileBuildResultsOf_def
  by (subst map_of_cache_foldl) simp_all

lemma mapFunctionEntries_filter:
  "mapFunctionEntries cache es =
     map (\<lambda>fe. \<lparr>fn_bundlePath = bundlePath (the (map_of cache (entry fe))),
                fn_func = the (func fe), fn_functionAlias = functionAlias fe\<rparr>)
       (filter (\<lambda>fe. map_of cache (entry fe) \<noteq> None \<and> func fe \<noteq> None) es)"
  by (induction es) (auto simp: mapFunctionEntries_def toBuildResult_def split: option.splits)

lemma mapFunctionEntries_resolved:
  "(\<And>fe. fe \<in> set es \<Longrightarrow>
      map_of cache (entry fe) = Some \<lparr>bundlePath = p (entry fe), file_entry = entry fe, result = res\<rparr>) \<Longrightarrow>
   mapFunctionEntries cache es =
     map (\<lambda>fe. \<lparr>fn_bundlePath = p (entry fe), fn_func = the (func fe),
                fn_functionAlias = functionAlias fe\<rparr>)
       (filter (\<lambda>fe. func fe \<noteq> None) es)"
  unfolding mapFunctionEntries_filter
  by (induction es) auto

lemma bundle_call_results:
  assumes "snd (bundle_call build this) = Inr rs" "buildOptions this = Some opts"
  shows "rs = map (\<lambda>fe. \<lparr>fn_bundlePath = bundlePathOf (entry fe) (get_prop opts ''outputFileExtension''),
                fn_func = the (func fe), fn_functionAlias = functionAlias fe\<rparr>)
       (filter (\<lambda>fe. func fe \<noteq> None) (functionEntries this))"
proof -
  have "\<exists>res :: jsobj. rs = mapFunctionEntries
      (buildCacheOf (fileBuildResultsOf (uniq (map entry (functionEntries this)))
         (get_prop opts ''outputFileExtension'') res)) (functionEntries this)"
    using assms
    by (auto simp: bundle_call_def Let_def split: sum.splits if_splits)
  then obtain res :: jsobj where rs: "rs = mapFunctionEntries
      (buildCacheOf (fileBuildResultsOf (uniq (map entry (functionEntries this)))
         (get_prop opts ''outputFileExtension'') res)) (functionEntries this)" ..
  show ?thesis
    unfolding rs
    by (rule mapFunctionEntries_resolved) (simp add: map_of_buildCache set_uniq)
qed

lemma buildCalls_bundle_call:
  "length (buildCalls (fst (bundle_call build this))) \<le> 1"
  by (auto simp: bundle_call_def Let_def split: sum.splits if_splits option.splits)

lemma bundle_call_success_builds_once:
  "snd (bundle_call build this) = Inr rs \<Longrightarrow> length (buildCalls (fst (bundle_call build this))) = 1"
  by (auto simp: bundle_call_def Let_def split: sum.splits if_splits option.splits)


lemmas test_defs = testBuildOptions_def testEntry_def testPlugin_def threeEntries_def twoEntries_def

lemmas eval_defs = bundle_call_def compilerConfig_def esbuildOptions_def pluginOptionNames_def
  getStringArray_def getExternalNames_def asArray_def assertIsString_def isESM_def get_prop_def
  omit_prop_def uniq_def truthy_def mapFunctionEntries_def toBuildResult_def buildCacheOf_def
  fileBuildResultsOf_def bundlePathOf_def lastIndexOf_def slice_def slice_index_def

text \<open>
  Claim C1: the compiler is invoked once per batch of at most C unique entries, so
  \<open>ceil(U / C)\<close> times. The code has no batching: with the options of the test "should make
  multiple esbuild calls when concurrency < entrypoints" (concurrency 2, three entries) it
  makes one compiler call, whose entry points are all three files.
\<close>

theorem concurrency_2_builds_three_entries_at_once:
  "map (\<lambda>call. get_prop call ''entryPoints'')
     (buildCalls (fst (bundle_call build (testPlugin (testBuildOptions (JNum 2)) threeEntries)))) =
   [JArr [JStr ''file1.ts'', JStr ''file2.ts'', JStr ''file3.ts'']]"
  by (simp add: eval_defs test_defs Let_def split: sum.splits)

text \<open>
  Claim C2: in skip mode the compiler is not invoked. The code never reads the flag: with the
  options of the test "should not call esbuild when skipBundle is true" it makes one compiler
  call, and the flag itself is part of the configuration handed to the compiler.
\<close>

theorem skipBundle_still_builds:
  "buildCalls (fst (bundle_call build (testPlugin skipBundleOptions twoEntries))) =
   [[(''bundle'', JBool True), (''target'', JStr ''node12''),
     (''external'', JArr [JStr ''aws-sdk'']), (''platform'', JStr ''node''),
     (''skipBundle'', JBool True), (''plugins'', JArr []),
     (''entryPoints'', JArr [JStr ''file1.ts'', JStr ''file2.ts'']),
     (''outdir'', JStr ''/workdir/.esbuild''), (''outbase'', JStr ''.'')]]"
  by (simp add: eval_defs test_defs skipBundleOptions_def Let_def split: sum.splits)

text \<open>
  Claim C3: with the build options defined and the build directory a string, an ES-module build
  with extension ".cjs" and a build that is not ES-module with extension ".mjs" both fail with
  the plugin's error and no compiler call; every other combination raises neither that error
  nor an assertion, and makes the compiler call.
\<close>

theorem extension_format_validation:
  assumes "buildOptions this = Some opts" and "buildDirPath this = JStr dir"
  shows "(isESM opts \<and> get_prop opts ''outputFileExtension'' = JStr ''.cjs'' \<longrightarrow>
            buildCalls (fst (bundle_call build this)) = [] \<and>
            (\<exists>message. snd (bundle_call build this) = Inl (ServerlessError message))) \<and>
         (\<not> isESM opts \<and> get_prop opts ''outputFileExtension'' = JStr ''.mjs'' \<longrightarrow>
            buildCalls (fst (bundle_call build this)) = [] \<and>
            (\<exists>message. snd (bundle_call build this) = Inl (ServerlessError message))) \<and>
         (\<not> (isESM opts \<and> get_prop opts ''outputFileExtension'' = JStr ''.cjs'') \<and>
          \<not> (\<not> isESM opts \<and> get_prop opts ''outputFileExtension'' = JStr ''.mjs'') \<longrightarrow>
            length (buildCalls (fst (bundle_call build this))) = 1 \<and>
            (\<forall>message. snd (bundle_call build this) \<noteq> Inl (ServerlessError message)) \<and>
            (\<forall>message. snd (bundle_call build this) \<noteq> Inl (AssertionError message)))"
  using assms
  by (auto simp: bundle_call_def assertIsString_def Let_def split: sum.splits)

theorem extension_format_validation_witness:
  "(buildCalls (fst (bundle_call okBuild esmCjsPlugin)) = [] \<and>
    (\<exists>message. snd (bundle_call okBuild esmCjsPlugin) = Inl (ServerlessError message))) \<and>
   (buildCalls (fst (bundle_call okBuild nodeMjsPlugin)) = [] \<and>
    (\<exists>message. snd (bundle_call okBuild nodeMjsPlugin) = Inl (ServerlessError message))) \<and>
   length (buildCalls (fst (bundle_call okBuild neutralMjsPlugin))) = 1"
  using extension_format_validation
    [of esmCjsPlugin "[(''format'', JStr ''esm''), (''outputFileExtension'', JStr ''.cjs'')]"
        "''/workdir/.esbuild''" okBuild]
    extension_format_validation
    [of nodeMjsPlugin "[(''platform'', JStr ''node''), (''outputFileExtension'', JStr ''.mjs'')]"
        "''/workdir/.esbuild''" okBuild]
    extension_format_validation
    [of neutralMjsPlugin "[(''platform'', JStr ''neutral''), (''outputFileExtension'', JStr ''.mjs'')]"
        "''/workdir/.esbuild''" okBuild]
  by (simp add: esmCjsPlugin_def nodeMjsPlugin_def neutralMjsPlugin_def testPlugin_def isESM_def
        get_prop_def)

text \<open>
  Claim C4: the bundle path of a built entry is the entry with its extension replaced by the
  output extension. For the entry "handler", which has no extension, the code stores the
  bundle path "handle.js": the last character is cut off, where "handler.js" is the entry
  with the extension put in place.
\<close>

theorem entry_without_extension_loses_last_character:
  "snd (bundle_call okBuild
      (testPlugin (testBuildOptions JInfinity) [testEntry ''handler'' ''handler.main'' ''func1''])) =
   Inr [\<lparr>fn_bundlePath = ''handle.js'', fn_func = ''handler.main'', fn_functionAlias = ''func1''\<rparr>]"
  by (simp add: eval_defs test_defs okBuild_def Let_def)

text \<open>
  Claim C5: the results are the function entries, in order, whose entry resolves in the cache
  and whose function handle is not null, one result each; the others are left out, and no
  error arises. Every entry resolves in the cache that \<^verbatim>\<open>bundle\<close> builds, so a completed
  call leaves out the entries with a null handle only.
\<close>

theorem function_entries_map_to_results:
  "mapFunctionEntries cache es =
     map (\<lambda>fe. \<lparr>fn_bundlePath = bundlePath (the (map_of cache (entry fe))),
                fn_func = the (func fe), fn_functionAlias = functionAlias fe\<rparr>)
       (filter (\<lambda>fe. map_of cache (entry fe) \<noteq> None \<and> func fe \<noteq> None) es) \<and>
   length (mapFunctionEntries cache es) =
     length (filter (\<lambda>fe. map_of cache (entry fe) \<noteq> None \<and> func fe \<noteq> None) es) \<and>
   (\<forall>rs opts. snd (bundle_call build this) = Inr rs \<and> buildOptions this = Some opts \<longrightarrow>
      rs = map (\<lambda>fe. \<lparr>fn_bundlePath = bundlePathOf (entry fe) (get_prop opts ''outputFileExtension''),
                      fn_func = the (func fe), fn_functionAlias = functionAlias fe\<rparr>)
             (filter (\<lambda>fe. func fe \<noteq> None) (functionEntries this)))"
  using bundle_call_results [of build this]
  by (simp add: mapFunctionEntries_filter)

theorem function_entries_map_to_results_witness:
  "mapFunctionEntries cacheOfA mixedEntries =
     [\<lparr>fn_bundlePath = ''a.js'', fn_func = ''a.one'', fn_functionAlias = ''f1''\<rparr>,
      \<lparr>fn_bundlePath = ''a.js'', fn_func = ''a.two'', fn_functionAlias = ''f4''\<rparr>] \<and>
   snd (bundle_call okBuild (testPlugin (testBuildOptions JInfinity) mixedEntries)) =
     Inr [\<lparr>fn_bundlePath = ''a.js'', fn_func = ''a.one'', fn_functionAlias = ''f1''\<rparr>,
          \<lparr>fn_bundlePath = ''b.js'', fn_func = ''b.main'', fn_functionAlias = ''f3''\<rparr>,
          \<lparr>fn_bundlePath = ''a.js'', fn_func = ''a.two'', fn_functionAlias = ''f4''\<rparr>]"
  using function_entries_map_to_results
    [of cacheOfA mixedEntries okBuild "testPlugin (testBuildOptions JInfinity) mixedEntries"]
  by (simp add: eval_defs test_defs mixedEntries_def cacheOfA_def okBuild_def Let_def)



text \<open>
  Claim C7: when the production install fails, \<^verbatim>\<open>install\<close> spawns exactly one more process,
  the install without the production flag, and its outcome is the outcome of that second
  process, error included; when the production install succeeds, it is the only process.
\<close>

theorem install_falls_back_once:
  "(\<forall>err w1. spawnProcess (''bun'', [''install'', ''--production''] @ extraArgs, cwd) w = (Inl err, w1) \<longrightarrow>
      fst (fst (install spawnProcess cwd extraArgs useLockfile w)) =
        [(''bun'', [''install'', ''--production''] @ extraArgs, cwd),
         (''bun'', [''install''] @ extraArgs, cwd)] \<and>
      snd (install spawnProcess cwd extraArgs useLockfile w) =
        snd (spawnProcess (''bun'', [''install''] @ extraArgs, cwd) w1) \<and>
      (\<forall>err2. fst (spawnProcess (''bun'', [''install''] @ extraArgs, cwd) w1) = Inl err2 \<longrightarrow>
         snd (fst (install spawnProcess cwd extraArgs useLockfile w)) = Inl err2) \<and>
      (\<forall>r. fst (spawnProcess (''bun'', [''install''] @ extraArgs, cwd) w1) = Inr r \<longrightarrow>
         snd (fst (install spawnProcess cwd extraArgs useLockfile w)) = Inr ())) \<and>
   (\<forall>r w1. spawnProcess (''bun'', [''install'', ''--production''] @ extraArgs, cwd) w = (Inr r, w1) \<longrightarrow>
      install spawnProcess cwd extraArgs useLockfile w =
        (([(''bun'', [''install'', ''--production''] @ extraArgs, cwd)], Inr ()), w1))"
  by (auto simp: install_def Let_def split: prod.splits sum.splits)

theorem install_falls_back_once_witness:
  "install (failingSpawn False) ''/app'' [''--frozen-lockfile''] True 0 =
     (([(''bun'', [''install'', ''--production'', ''--frozen-lockfile''], ''/app''),
        (''bun'', [''install'', ''--frozen-lockfile''], ''/app'')], Inr ()), 2) \<and>
   install (failingSpawn True) ''/app'' [] True 0 =
     (([(''bun'', [''install'', ''--production''], ''/app''),
        (''bun'', [''install''], ''/app'')], Inl ''install failed''), 2) \<and>
   install workingSpawn ''/app'' [] True 0 =
     (([(''bun'', [''install'', ''--production''], ''/app'')], Inr ()), 1)"
  using install_falls_back_once [of "failingSpawn False" "[''--frozen-lockfile'']" "''/app''" 0 True]
        install_falls_back_once [of "failingSpawn True" "[]" "''/app''" 0 True]
        install_falls_back_once [of workingSpawn "[]" "''/app''" 0 True]
  by (simp add: failingSpawn_def workingSpawn_def install_def Let_def)

lemma queueFiles_resolved:
  "(\<And>file. file \<in> set files \<Longrightarrow> statsOf statCache statSync (rootPath file) = Inr (stats file)) \<Longrightarrow>
   queueFiles statCache statSync queued files =
     Inr (queued @
          map (\<lambda>file. \<lparr>ae_source = rootPath file, ae_name = localPath file,
                         ae_mode = mode (stats file), ae_date = 0\<rparr>)
            (filter (\<lambda>file. \<not> isDirectory (stats file)) files))"
  by (induction files arbitrary: queued) auto

text \<open>
  Claim C8: for the same file list and the same file status, \<^verbatim>\<open>nodeZip\<close> ends the same way
  for either target path, with the same error or the same bytes written; when the status of
  every file is known, the bytes are the archive of the entries that are not directories,
  each with its name, the permission bits of its status and the date 0 (the epoch).
\<close>

theorem nodeZip_deterministic:
  "map_sum id snd (nodeZip finalize statSync zipPath1 files statCache) =
   map_sum id snd (nodeZip finalize statSync zipPath2 files statCache) \<and>
   ((\<forall>file \<in> set files. statsOf statCache statSync (rootPath file) = Inr (stats file)) \<longrightarrow>
      nodeZip finalize statSync zipPath1 files statCache =
        Inr (zipPath1,
             finalize (map (\<lambda>file. \<lparr>ae_source = rootPath file, ae_name = localPath file,
                                     ae_mode = mode (stats file), ae_date = 0\<rparr>)
                        (filter (\<lambda>file. \<not> isDirectory (stats file)) files))))"
proof
  show "map_sum id snd (nodeZip finalize statSync zipPath1 files statCache) =
        map_sum id snd (nodeZip finalize statSync zipPath2 files statCache)"
    by (simp add: nodeZip_def split: sum.splits)
next
  show "(\<forall>file \<in> set files. statsOf statCache statSync (rootPath file) = Inr (stats file)) \<longrightarrow>
      nodeZip finalize statSync zipPath1 files statCache =
        Inr (zipPath1,
             finalize (map (\<lambda>file. \<lparr>ae_source = rootPath file, ae_name = localPath file,
                                     ae_mode = mode (stats file), ae_date = 0\<rparr>)
                        (filter (\<lambda>file. \<not> isDirectory (stats file)) files)))"
    using queueFiles_resolved [of files statCache statSync stats "[]"]
    by (simp add: nodeZip_def)
qed

theorem nodeZip_deterministic_witness:
  "nodeZip demoFinalize demoStatSync ''/out/a.zip'' demoFiles None =
     Inr (''/out/a.zip'', [(''index.js'', 33188, 0), (''bin/run.sh'', 33261, 0)]) \<and>
   nodeZip demoFinalize demoStatSync ''/out/b.zip'' demoFiles None =
     Inr (''/out/b.zip'', [(''index.js'', 33188, 0), (''bin/run.sh'', 33261, 0)])"
  using nodeZip_deterministic
    [of demoFinalize demoStatSync "''/out/a.zip''" demoFiles None "''/out/b.zip''"
        "\<lambda>file. demoStats (rootPath file)"]
    nodeZip_deterministic
    [of demoFinalize demoStatSync "''/out/b.zip''" demoFiles None "''/out/a.zip''"
        "\<lambda>file. demoStats (rootPath file)"]
  by (simp add: demoFiles_def demoStatSync_def demoStats_def demoFinalize_def statsOf_def)

text \<open>
  The dependencies section in general: a dependency named \<^verbatim>\<open>__proto__\<close> is not stored, since
  the assignment of line 50 runs the prototype setter for it.
\<close>

lemma getProdDependencies_own_properties:
  assumes "readFileSync (path_join cwd ''package.json'') = Inr content"
      and "JSON_parse content = Inr (JObj manifest)"
      and "map_of manifest ''dependencies'' = Some (JObj deps)"
      and "distinct (map fst deps)"
  shows "getProdDependencies readFileSync JSON_parse path_join cwd =
           \<lparr>dependencies = map (\<lambda>(name, version). (name, JObj [(''version'', version)]))
                             (filter (\<lambda>(name, version). name \<noteq> ''__proto__'') deps)\<rparr>"
  using assms
    foldl_assign_prop_distinct [where acc = "[]" and g = "\<lambda>version. JObj [(''version'', version)]"]
  by (auto simp: getProdDependencies_def Let_def get_prop_def truthy_def)

lemma getProdDependencies_drops_proto:
  "getProdDependencies demoReadFileSync demoParse demoJoin ''/proto'' =
     \<lparr>dependencies = [(''pg'', JObj [(''version'', JStr ''8.11.3'')])]\<rparr>"
  by (simp add: getProdDependencies_def demoReadFileSync_def demoParse_def demoJoin_def
        get_prop_def truthy_def assign_prop_def Let_def)



text \<open>
  Claim C10: the bundle path is the entry cut at its last ".", wherever that is, followed by
  the output extension: an entry whose last path segment has a "." loses the suffix from that
  "." on; an entry without any "." loses its last character; an entry whose only "." is in a
  directory name is cut at that directory's ".".
\<close>

theorem bundle_path_truncates_at_last_dot:
  "(CHR ''/'' \<notin> set stem \<and> CHR ''/'' \<notin> set suf \<and> CHR ''.'' \<notin> set suf \<longrightarrow>
      bundlePathOf (dir @ stem @ CHR ''.'' # suf) (JStr ext) = dir @ stem @ ext) \<and>
   (CHR ''.'' \<notin> set e \<longrightarrow> bundlePathOf e (JStr ext) = butlast e @ ext) \<and>
   (CHR ''.'' \<notin> set d2 \<and> CHR ''.'' \<notin> set file \<and> CHR ''/'' \<notin> set file \<longrightarrow>
      bundlePathOf (d1 @ CHR ''.'' # d2 @ CHR ''/'' # file) (JStr ext) = d1 @ ext)"
  using bundlePathOf_last_dot [of suf "dir @ stem" "JStr ext"]
        bundlePathOf_no_dot [of e "JStr ext"]
        bundlePathOf_last_dot [of "d2 @ CHR ''/'' # file" d1 "JStr ext"]
  by simp

theorem bundle_path_truncates_at_last_dot_witness:
  "bundlePathOf ''src/handler.ts'' (JStr ''.js'') = ''src/handler.js'' \<and>
   bundlePathOf ''handler'' (JStr ''.js'') = ''handle.js'' \<and>
   bundlePathOf ''src.v2/handler'' (JStr ''.js'') = ''src.js''"
  using bundle_path_truncates_at_last_dot
    [of "''handler''" "''ts''" "''src/''" "''.js''" "''handler''" "''v2''" "''handler''" "''src''"]
  by simp

end
